theory Spec2Isabelle
  imports Main "HOL-Library.AList"
begin

section \<open>The TChannel inbound handler of yarpc-go and its response writer\<close>

text \<open>
  The development embeds \<^verbatim>\<open>transport/tchannel/handler.go\<close>: the function
  \<^verbatim>\<open>handler.handle\<close>, the \<^verbatim>\<open>responseWriter\<close> with its methods
  \<^verbatim>\<open>AddHeaders\<close>, \<^verbatim>\<open>Write\<close> and \<^verbatim>\<open>Close\<close>, and the two interfaces
  \<^verbatim>\<open>inboundCall\<close> and \<^verbatim>\<open>inboundCallResponse\<close> through which the handler talks to
  the TChannel library. The library is not part of the repository, so the interfaces
  are realised by a recording fake, as the comments on the interfaces intend: the fake
  logs every call made on it and answers with the outcomes it was configured with.
\<close>

subsection \<open>Errors\<close>

text \<open>
  A Go \<^verbatim>\<open>error\<close> value: its text (what \<^verbatim>\<open>%v\<close> prints) and the transport-neutral
  class it belongs to. The handler in this file never looks at the class.
\<close>

datatype error_class = UnexpectedClass | BadRequestClass | TimeoutClass

datatype error = GoError error_class string

fun error_class_of :: "error \<Rightarrow> error_class" where
  "error_class_of (GoError cl m) = cl"

fun Error :: "error \<Rightarrow> string" where
  "Error (GoError cl m) = m"

text \<open>The error codes of TChannel system errors, and a system error itself.
  \<^verbatim>\<open>tchannel.ErrTimeoutRequired\<close> is a value of the library; it is kept opaque.\<close>

datatype SystemErrCode =
    ErrCodeTimeout | ErrCodeCancelled | ErrCodeBusy | ErrCodeDeclined
  | ErrCodeUnexpected | ErrCodeBadRequest | ErrCodeNetwork | ErrCodeProtocol

datatype system_error = ErrTimeoutRequired | NewSystemError SystemErrCode string

subsection \<open>Headers\<close>

type_synonym bytes = string

text \<open>
  \<^verbatim>\<open>transport.Headers\<close> is a Go map from string to string. It is an association
  list here; as an argument of \<^verbatim>\<open>AddHeaders\<close> the list gives the entries in the order
  in which \<^verbatim>\<open>range\<close> visits them.
\<close>

type_synonym headers = "(string \<times> string) list"

definition toLower_char :: "char \<Rightarrow> char" where
  "toLower_char c =
     (let n = (of_char c :: nat) in if 65 \<le> n \<and> n \<le> 90 then char_of (n + 32) else c)"

definition toLower :: "string \<Rightarrow> string" where
  "toLower s = map toLower_char s"

text \<open>
  Modelled from the spec: \<^verbatim>\<open>Headers.Set\<close> is declared in the package
  \<^verbatim>\<open>transport\<close>, which is not among the sources. The spec says of it: every store
  normalizes the key to lower-case ASCII, the value is stored verbatim, and the last
  writer wins.
\<close>

definition Headers_Set :: "string \<Rightarrow> string \<Rightarrow> headers \<Rightarrow> headers" where
  "Headers_Set k v hs = AList.update (toLower k) v hs"

subsection \<open>The request handed to a handler\<close>

record request =
  Caller :: string
  Service :: string
  Encoding :: string
  Procedure :: string
  Headers :: headers
  Body :: bytes
  TTL :: int

subsection \<open>The recording fake of one TChannel call\<close>

datatype argWriter = Arg3BodyWriter

datatype event =
    EvArg2Reader
  | EvArg3Reader
  | EvHandle request
  | EvBodyClose
  | EvArg2 string headers
  | EvArg3Open
  | EvArg3Write bytes
  | EvArg3Close
  | EvSystemError system_error

text \<open>
  The state of the fake: the calls seen so far, oldest first, and the outcome each
  operation of \<^verbatim>\<open>inboundCallResponse\<close> and of its argument writers will have.
  \<open>write_plan\<close> lists the outcomes of the successive body writes: \<open>None\<close> accepts all
  the bytes, \<open>Some (n, e)\<close> accepts at most \<open>n\<close> bytes and fails with \<open>e\<close>; past the
  end of the list every write succeeds.
\<close>

record conn =
  events :: "event list"
  arg2_fault :: "error option"
  arg3_fault :: "error option"
  write_plan :: "(nat \<times> error) option list"
  close_fault :: "error option"

definition log :: "event \<Rightarrow> conn \<Rightarrow> conn" where
  "log e c = c\<lparr>events := events c @ [e]\<rparr>"

definition SendSystemError :: "system_error \<Rightarrow> conn \<Rightarrow> conn" where
  "SendSystemError e c = log (EvSystemError e) c"

definition Arg3Writer :: "conn \<Rightarrow> (error + argWriter) \<times> conn" where
  "Arg3Writer c =
     (case arg3_fault c of
        Some e \<Rightarrow> (Inl e, c)
      | None \<Rightarrow> (Inr Arg3BodyWriter, log EvArg3Open c))"

definition ArgWriter_Write :: "bytes \<Rightarrow> conn \<Rightarrow> (nat \<times> error option) \<times> conn" where
  "ArgWriter_Write s c =
     (case write_plan c of
        [] \<Rightarrow> ((length s, None), log (EvArg3Write s) c)
      | None # plan \<Rightarrow> ((length s, None), log (EvArg3Write s) (c\<lparr>write_plan := plan\<rparr>))
      | Some (n, e) # plan \<Rightarrow>
          ((min n (length s), Some e), log (EvArg3Write (take n s)) (c\<lparr>write_plan := plan\<rparr>)))"

definition ArgWriter_Close :: "conn \<Rightarrow> error option \<times> conn" where
  "ArgWriter_Close c =
     (case close_fault c of
        Some e \<Rightarrow> (Some e, c)
      | None \<Rightarrow> (None, log EvArg3Close c))"

text \<open>
  Modelled from the spec: \<^verbatim>\<open>writeHeaders\<close> is a function of the package that is
  not among the sources. The spec says that response headers go through
  \<^verbatim>\<open>Arg2Writer\<close> in the encoding the format asks for. The fake records the format and
  the headers handed over, or answers with the fault of the arg2 writer.
\<close>

definition writeHeaders :: "string \<Rightarrow> headers \<Rightarrow> conn \<Rightarrow> error option \<times> conn" where
  "writeHeaders fmt hs c =
     (case arg2_fault c of
        Some e \<Rightarrow> (Some e, c)
      | None \<Rightarrow> (None, log (EvArg2 fmt hs) c))"

text \<open>
  An inbound call: the four accessors of \<^verbatim>\<open>inboundCall\<close>, what reading the headers
  from the arg2 frame gives, and what \<^verbatim>\<open>Arg3Reader\<close> gives (the bytes of the body).
\<close>

record inboundCall =
  ServiceName :: string
  CallerName :: string
  MethodString :: string
  Format :: string
  Arg2 :: "error + headers"
  Arg3 :: "error + bytes"

text \<open>
  Modelled from the spec: \<^verbatim>\<open>readHeaders\<close> is a function of the package that is not
  among the sources. The spec says that headers are read with \<^verbatim>\<open>Arg2Reader\<close> and
  decoded as the format asks for; the call carries the outcome.
\<close>

definition readHeaders :: "string \<Rightarrow> inboundCall \<Rightarrow> conn \<Rightarrow> (error + headers) \<times> conn" where
  "readHeaders fmt call c = (Arg2 call, log EvArg2Reader c)"

definition Arg3Reader :: "inboundCall \<Rightarrow> conn \<Rightarrow> (error + bytes) \<times> conn" where
  "Arg3Reader call c = (Arg3 call, log EvArg3Reader c)"

definition body_Close :: "conn \<Rightarrow> conn" where
  "body_Close c = log EvBodyClose c"

subsection \<open>The response writer\<close>

record responseWriter =
  failedWith :: "error option"
  bodyWriter :: "argWriter option"
  format :: string
  headers :: headers
  wroteHeaders :: bool

definition newResponseWriter :: "inboundCall \<Rightarrow> responseWriter" where
  "newResponseWriter call =
     \<lparr>failedWith = None, bodyWriter = None, format = Format call, headers = [],
      wroteHeaders = False\<rparr>"

text \<open>\<^verbatim>\<open>AddHeaders\<close> panics once \<^verbatim>\<open>wroteHeaders\<close> is set: \<open>Inl\<close> carries the panic
  value, and the writer is then as it was.\<close>

definition AddHeaders :: "headers \<Rightarrow> responseWriter \<Rightarrow> string + responseWriter" where
  "AddHeaders h rw =
     (if wroteHeaders rw then Inl ''AddHeaders() cannot be called after calling Write().''
      else Inr (rw\<lparr>headers := foldl (\<lambda>hs (k, v). Headers_Set k v hs) (headers rw) h\<rparr>))"

text \<open>
  \<^verbatim>\<open>Write\<close>, block by block as in the source: the sticky error is returned at once;
  the first call sets \<^verbatim>\<open>wroteHeaders\<close> and writes the headers; the body writer is
  opened when there is none; the bytes are written and an error of the write is
  stored. The result is the pair \<^verbatim>\<open>(n, err)\<close>, the writer and the connection.
\<close>

definition Write ::
  "bytes \<Rightarrow> responseWriter \<Rightarrow> conn \<Rightarrow> (nat \<times> error option) \<times> responseWriter \<times> conn" where
  "Write s rw c =
     (case failedWith rw of
        Some e \<Rightarrow> ((0, Some e), rw, c)
      | None \<Rightarrow>
         (case (if \<not> wroteHeaders rw then writeHeaders (format rw) (headers rw) c
                else (None, c)) of
            (Some err, c1) \<Rightarrow>
              ((0, Some err), rw\<lparr>wroteHeaders := True, failedWith := Some err\<rparr>, c1)
          | (None, c1) \<Rightarrow>
             (case (if bodyWriter rw = None then Arg3Writer c1
                    else (Inr (the (bodyWriter rw)), c1)) of
                (Inl err, c2) \<Rightarrow>
                  ((0, Some err), rw\<lparr>wroteHeaders := True, failedWith := Some err\<rparr>, c2)
              | (Inr w, c2) \<Rightarrow>
                 (case ArgWriter_Write s c2 of
                    ((n, err), c3) \<Rightarrow>
                      ((n, err),
                       rw\<lparr>wroteHeaders := True, bodyWriter := Some w,
                          failedWith := err\<rparr>, c3)))))"

text \<open>
  \<^verbatim>\<open>Close\<close> closes the body writer when there is one, and returns the sticky error
  when there is one and otherwise the error of closing. It does not change the writer.
\<close>

definition Close :: "responseWriter \<Rightarrow> conn \<Rightarrow> error option \<times> conn" where
  "Close rw c =
     (case (if bodyWriter rw \<noteq> None then ArgWriter_Close c else (None, c)) of
        (err, c1) \<Rightarrow> ((if failedWith rw \<noteq> None then failedWith rw else err), c1))"

subsection \<open>Handlers\<close>

text \<open>
  A \<^verbatim>\<open>transport.Handler\<close> is user code. What it does to the response writer is a
  tree of calls: it returns an error or nil, it panics, it calls \<^verbatim>\<open>AddHeaders\<close>, or
  it calls \<^verbatim>\<open>Write\<close> and goes on according to what \<^verbatim>\<open>Write\<close> returned. A panic
  raised by \<^verbatim>\<open>AddHeaders\<close> unwinds the handler.
\<close>

datatype handler_prog =
    Return "error option"
  | Panic string
  | DoAddHeaders headers handler_prog
  | DoWrite bytes "nat \<times> error option \<Rightarrow> handler_prog"

datatype handler_result = Returns "error option" | Panics string

primrec run ::
  "handler_prog \<Rightarrow> responseWriter \<Rightarrow> conn \<Rightarrow> handler_result \<times> responseWriter \<times> conn" where
  "run (Return e) = (\<lambda>rw c. (Returns e, rw, c))"
| "run (Panic m) = (\<lambda>rw c. (Panics m, rw, c))"
| "run (DoAddHeaders h p) = (\<lambda>rw c.
     (case AddHeaders h rw of
        Inl m \<Rightarrow> (Panics m, rw, c)
      | Inr rw1 \<Rightarrow> run p rw1 c))"
| "run (DoWrite s k) = (\<lambda>rw c.
     (case Write s rw c of (r, rw1, c1) \<Rightarrow> run (k r) rw1 c1))"

record ctx =
  Deadline :: "int option"

type_synonym handler = "ctx \<Rightarrow> request \<Rightarrow> handler_prog"

text \<open>\<^verbatim>\<open>deadline.Sub(time.Now())\<close>: a duration in nanoseconds, which \<^verbatim>\<open>Sub\<close>
  saturates to the range of a signed 64-bit integer.\<close>

definition Time_Sub :: "int \<Rightarrow> int \<Rightarrow> int" where
  "Time_Sub t u = max (- (2 ^ 63)) (min (2 ^ 63 - 1) (t - u))"

text \<open>
  How \<^verbatim>\<open>handle\<close> ends: it returns, or the panic of the handler leaves it (the
  function has no \<^verbatim>\<open>recover\<close>). Once the body reader and the response writer
  exist, their closing is deferred: on every way out of the function, the panic
  included, \<^verbatim>\<open>rw.Close()\<close> runs first and \<^verbatim>\<open>body.Close()\<close> after it, and the error
  of \<^verbatim>\<open>rw.Close()\<close> is dropped. The current time is the argument \<open>now\<close>.
\<close>

datatype outcome = Returned | Panicked string

definition handle :: "handler \<Rightarrow> ctx \<Rightarrow> int \<Rightarrow> inboundCall \<Rightarrow> conn \<Rightarrow> outcome \<times> conn" where
  "handle h ctx now call c =
     (case Deadline ctx of
        None \<Rightarrow> (Returned, SendSystemError ErrTimeoutRequired c)
      | Some deadline \<Rightarrow>
         (case readHeaders (Format call) call c of
            (Inl err, c1) \<Rightarrow>
              (Returned,
               SendSystemError
                 (NewSystemError ErrCodeUnexpected (''failed to read headers: '' @ Error err)) c1)
          | (Inr hdrs, c1) \<Rightarrow>
             (case Arg3Reader call c1 of
                (Inl err, c2) \<Rightarrow>
                  (Returned,
                   SendSystemError
                     (NewSystemError ErrCodeUnexpected (''failed to read body: '' @ Error err)) c2)
              | (Inr body, c2) \<Rightarrow>
                 (let rw = newResponseWriter call;
                      treq = \<lparr>Caller = CallerName call, Service = ServiceName call,
                              Encoding = Format call, Procedure = MethodString call,
                              Headers = hdrs, Body = body, TTL = Time_Sub deadline now\<rparr>
                  in case run (h ctx treq) rw (log (EvHandle treq) c2) of
                       (res, rw1, c3) \<Rightarrow>
                         (let (out, c4) =
                                (case res of
                                   Panics m \<Rightarrow> (Panicked m, c3)
                                 | Returns None \<Rightarrow> (Returned, c3)
                                 | Returns (Some err) \<Rightarrow>
                                     (Returned,
                                      SendSystemError
                                        (NewSystemError ErrCodeUnexpected
                                           (''internal error: '' @ Error err)) c3))
                          in (out, body_Close (snd (Close rw1 c4))))))))"

subsection \<open>What an observer of the connection sees\<close>

text \<open>
  The response of one call on the wire goes through these phases; a response frame
  that arrives in another order (a body frame before the arg2 frame, a second arg2
  frame, a body frame after the end of the body) leads to \<open>OutOfOrder\<close>.
\<close>

datatype wire_phase = NothingSent | HeadersSent | BodyStarted | BodyEnded | OutOfOrder

fun wire_step :: "wire_phase \<Rightarrow> event \<Rightarrow> wire_phase" where
  "wire_step p (EvArg2 f h) = (if p = NothingSent then HeadersSent else OutOfOrder)"
| "wire_step p EvArg3Open = (if p = HeadersSent then BodyStarted else OutOfOrder)"
| "wire_step p (EvArg3Write s) = (if p = BodyStarted then BodyStarted else OutOfOrder)"
| "wire_step p EvArg3Close = (if p = BodyStarted then BodyEnded else OutOfOrder)"
| "wire_step p EvArg2Reader = p"
| "wire_step p EvArg3Reader = p"
| "wire_step p (EvHandle r) = p"
| "wire_step p EvBodyClose = p"
| "wire_step p (EvSystemError e) = p"

definition wire_phase_of :: "event list \<Rightarrow> wire_phase" where
  "wire_phase_of es = foldl wire_step NothingSent es"

definition headers_precede_body :: "event list \<Rightarrow> bool" where
  "headers_precede_body es = (wire_phase_of es \<noteq> OutOfOrder)"

fun system_errors :: "event list \<Rightarrow> system_error list" where
  "system_errors [] = []"
| "system_errors (EvSystemError e # es) = e # system_errors es"
| "system_errors (x # es) = system_errors es"

fun system_error_codes :: "event list \<Rightarrow> SystemErrCode list" where
  "system_error_codes [] = []"
| "system_error_codes (EvSystemError (NewSystemError code m) # es) = code # system_error_codes es"
| "system_error_codes (x # es) = system_error_codes es"

fun handled :: "event list \<Rightarrow> request list" where
  "handled [] = []"
| "handled (EvHandle r # es) = r # handled es"
| "handled (x # es) = handled es"

fun is_response_frame :: "event \<Rightarrow> bool" where
  "is_response_frame (EvArg2 f h) = True"
| "is_response_frame EvArg3Open = True"
| "is_response_frame (EvArg3Write s) = True"
| "is_response_frame EvArg3Close = True"
| "is_response_frame x = False"

text \<open>
  The reading of the spec's sentence on system errors: each transport-neutral class
  of error has its own system error code.
\<close>

fun spec_system_code :: "error_class \<Rightarrow> SystemErrCode" where
  "spec_system_code UnexpectedClass = ErrCodeUnexpected"
| "spec_system_code BadRequestClass = ErrCodeBadRequest"
| "spec_system_code TimeoutClass = ErrCodeTimeout"

text \<open>The (lowercased key \<open>\<rightarrow>\<close> value) mapping of headers; the last entry of a key wins.\<close>

definition lowercased_view :: "headers \<Rightarrow> string \<Rightarrow> string option" where
  "lowercased_view hs = map_of (rev (map (\<lambda>(k, v). (toLower k, v)) hs))"

subsection \<open>User headers of the HTTP transport\<close>

definition ApplicationHeaderPrefix :: string where
  "ApplicationHeaderPrefix = ''Rpc-Header-''"

definition hasPrefix :: "string \<Rightarrow> string \<Rightarrow> bool" where
  "hasPrefix s p = (take (length p) s = p)"

text \<open>
  Modelled from the spec: the HTTP inbound of \<^verbatim>\<open>v2/yarpchttp\<close> is not among the
  sources, only its tests are. The spec says: any request header with prefix
  \<^verbatim>\<open>Rpc-Header-\<close> becomes a user header with that prefix stripped and lowercased.
  The HTTP headers are given as the list of their (name, value) lines.
\<close>

definition FromHTTPHeaders :: "(string \<times> string) list \<Rightarrow> headers \<Rightarrow> headers" where
  "FromHTTPHeaders from to =
     foldl (\<lambda>acc (k, v).
              if hasPrefix k ApplicationHeaderPrefix
              then Headers_Set (drop (length ApplicationHeaderPrefix) k) v acc
              else acc) to from"

text \<open>
  Modelled from the spec: the response writer of the HTTP inbound is not among the
  sources. The spec says: user headers are echoed with the \<^verbatim>\<open>Rpc-Header-\<close> prefix.
\<close>

definition ToHTTPHeaders :: "headers \<Rightarrow> (string \<times> string) list" where
  "ToHTTPHeaders from = map (\<lambda>(k, v). (ApplicationHeaderPrefix @ k, v)) from"

subsection \<open>Concrete calls, connections and handlers\<close>

definition healthy :: conn where
  "healthy = \<lparr>events = [], arg2_fault = None, arg3_fault = None, write_plan = [],
              close_fault = None\<rparr>"


definition call_hello :: inboundCall where
  "call_hello = \<lparr>ServiceName = ''curly'', CallerName = ''moe'', MethodString = ''nyuck'',
                 Format = ''raw'', Arg2 = Inr [(''k'', ''v'')], Arg3 = Inr ''hello''\<rparr>"

definition ctx_1s :: ctx where
  "ctx_1s = \<lparr>Deadline = Some 1000000000\<rparr>"

definition ctx_background :: ctx where
  "ctx_background = \<lparr>Deadline = None\<rparr>"

definition req_hello :: request where
  "req_hello = \<lparr>Caller = ''moe'', Service = ''curly'', Encoding = ''raw'',
                Procedure = ''nyuck'', Headers = [(''k'', ''v'')], Body = ''hello'',
                TTL = 1000000000\<rparr>"

definition panicking_handler :: handler where
  "panicking_handler c r = Panic ''handler panicked''"

definition headers_only_handler :: handler where
  "headers_only_handler c r = DoAddHeaders [(''a'', ''b'')] (Return None)"

definition timeout_handler :: handler where
  "timeout_handler c r = Return (Some (GoError TimeoutClass ''too slow''))"

text \<open>A handler that writes the fields of the request it is handed as the body.\<close>

definition echo_handler :: handler where
  "echo_handler c r =
     DoWrite (Caller r @ ''|'' @ Service r @ ''|'' @ Procedure r @ ''|'' @ Encoding r @ ''|'' @
              concat (map (\<lambda>(k, v). k @ ''='' @ v @ '';'') (Headers r)) @ ''|'' @ Body r)
       (\<lambda>res. Return (snd res))"

definition world_handler :: handler where
  "world_handler c r =
     DoAddHeaders [(''a'', ''b'')] (DoWrite ''world'' (\<lambda>res. Return (snd res)))"

text \<open>
  How the fields of a response writer go with the phase of the response on the wire.
\<close>

definition writer_matches_wire :: "responseWriter \<Rightarrow> conn \<Rightarrow> bool" where
  "writer_matches_wire rw c =
     (case wire_phase_of (events c) of
        NothingSent \<Rightarrow> bodyWriter rw = None \<and> (\<not> wroteHeaders rw \<or> failedWith rw \<noteq> None)
      | HeadersSent \<Rightarrow> wroteHeaders rw \<and> bodyWriter rw = None \<and> failedWith rw \<noteq> None
      | BodyStarted \<Rightarrow> wroteHeaders rw \<and> bodyWriter rw \<noteq> None
      | BodyEnded \<Rightarrow> False
      | OutOfOrder \<Rightarrow> False)"


definition hi_writer :: responseWriter where
  "hi_writer = (newResponseWriter call_hello)\<lparr>headers := [(''foo'', ''bar'')]\<rparr>"


section \<open>Properties\<close>

subsection \<open>What the response writer and a handler can put into the log\<close>

lemma system_errors_append: "system_errors (xs @ ys) = system_errors xs @ system_errors ys"
  by (induction xs rule: system_errors.induct) simp_all

lemma handled_append: "handled (xs @ ys) = handled xs @ handled ys"
  by (induction xs rule: handled.induct) simp_all

lemma system_errors_frames: "list_all is_response_frame es \<Longrightarrow> system_errors es = []"
  by (induction es rule: system_errors.induct) simp_all

lemma handled_frames: "list_all is_response_frame es \<Longrightarrow> handled es = []"
  by (induction es rule: handled.induct) simp_all

lemma Write_events:
  "\<exists>es. events (snd (snd (Write s rw c))) = events c @ es \<and> list_all is_response_frame es"
  by (auto simp: Write_def writeHeaders_def Arg3Writer_def ArgWriter_Write_def log_def
           split: option.splits sum.splits prod.splits list.splits)

lemma run_events:
  "\<exists>es. events (snd (snd (run p rw c))) = events c @ es \<and> list_all is_response_frame es"
proof (induction p arbitrary: rw c)
  case (Return e)
  show ?case by simp
next
  case (Panic m)
  show ?case by simp
next
  case (DoAddHeaders h p)
  show ?case
  proof (cases "AddHeaders h rw")
    case (Inl m)
    then show ?thesis by simp
  next
    case (Inr rw1)
    then show ?thesis using DoAddHeaders.IH [of rw1 c] by simp
  qed
next
  case (DoWrite s k)
  obtain r rw1 c1 where w: "Write s rw c = (r, rw1, c1)"
    by (cases "Write s rw c") auto
  from Write_events [of s rw c] w obtain es1
    where e1: "events c1 = events c @ es1" "list_all is_response_frame es1" by auto
  from DoWrite.IH [of "k r" rw1 c1] obtain es2
    where e2: "events (snd (snd (run (k r) rw1 c1))) = events c1 @ es2"
      "list_all is_response_frame es2" by blast
  show ?case using w e1 e2 by simp
qed

lemma Close_events:
  "\<exists>es. events (snd (Close rw c)) = events c @ es \<and> list_all is_response_frame es"
  by (auto simp: Close_def ArgWriter_Close_def log_def split: option.splits)

subsection \<open>Calls without a deadline\<close>

text \<open>
  C6. When the context of a TChannel inbound call carries no deadline, \<open>handle\<close> sends
  the system error \<open>ErrTimeoutRequired\<close> and returns. That is the only entry the call
  adds to the log: the arguments are not read and the handler is not invoked.
\<close>

theorem handle_without_deadline:
  "Deadline ctx = None \<Longrightarrow>
   handle h ctx now call c =
     (Returned, c\<lparr>events := events c @ [EvSystemError ErrTimeoutRequired]\<rparr>)"
  by (simp add: handle_def SendSystemError_def log_def)

theorem handle_without_deadline_witness:
  "Deadline ctx_background = None \<and>
   handle world_handler ctx_background 0 call_hello healthy =
     (Returned, healthy\<lparr>events := events healthy @ [EvSystemError ErrTimeoutRequired]\<rparr>)"
  using handle_without_deadline [of ctx_background world_handler 0 call_hello healthy]
  by (simp add: ctx_background_def)

subsection \<open>The accepted path of \<open>handle\<close>\<close>

lemma handle_accepted:
  assumes "Deadline ctx = Some d" "Arg2 call = Inr hs" "Arg3 call = Inr b"
    and "treq = \<lparr>Caller = CallerName call, Service = ServiceName call,
                 Encoding = Format call, Procedure = MethodString call,
                 Headers = hs, Body = b, TTL = Time_Sub d now\<rparr>"
    and "c2 = c\<lparr>events := events c @ [EvArg2Reader, EvArg3Reader, EvHandle treq]\<rparr>"
    and "run (h ctx treq) (newResponseWriter call) c2 = (res, rw1, c3)"
  shows "handle h ctx now call c =
     (case res of
        Panics m \<Rightarrow> (Panicked m, body_Close (snd (Close rw1 c3)))
      | Returns None \<Rightarrow> (Returned, body_Close (snd (Close rw1 c3)))
      | Returns (Some err) \<Rightarrow>
          (Returned, body_Close (snd (Close rw1 (SendSystemError
             (NewSystemError ErrCodeUnexpected (''internal error: '' @ Error err)) c3)))))"
  using assms
  by (simp add: handle_def readHeaders_def Arg3Reader_def log_def Let_def
           split: handler_result.splits option.splits)

subsection \<open>The request built for an accepted call\<close>

text \<open>
  C8. For an accepted call (the context has a deadline, the headers are read from the
  arg2 frame and the arg3 reader opens), \<open>handle\<close> runs the handler on one request and
  on no other: the request whose \<open>Caller\<close> is \<open>CallerName\<close>, \<open>Service\<close> is
  \<open>ServiceName\<close>, \<open>Procedure\<close> is \<open>MethodString\<close>, \<open>Encoding\<close> is \<open>Format\<close>, \<open>Headers\<close>
  are the headers decoded from arg2 and \<open>Body\<close> is what the arg3 reader delivers. What
  \<open>handle\<close> does is what the handler does on that request, followed by the system
  error for a returned error and the two deferred closings. A handler that writes the
  fields of its request as the body makes them visible on the wire. The handler is
  invoked once, after the headers have been read through \<open>Arg2Reader\<close> and the body
  through \<open>Arg3Reader\<close>.
\<close>

theorem handle_request_fields:
  assumes "Deadline ctx = Some d" "Arg2 call = Inr hs" "Arg3 call = Inr b"
  shows "handle h ctx now call c =
           (let treq = \<lparr>Caller = CallerName call, Service = ServiceName call,
                        Encoding = Format call, Procedure = MethodString call,
                        Headers = hs, Body = b, TTL = Time_Sub d now\<rparr>
            in case run (h ctx treq) (newResponseWriter call)
                     (c\<lparr>events := events c @ [EvArg2Reader, EvArg3Reader, EvHandle treq]\<rparr>) of
                 (res, rw1, c3) \<Rightarrow>
                   (case res of
                      Panics m \<Rightarrow> (Panicked m, body_Close (snd (Close rw1 c3)))
                    | Returns None \<Rightarrow> (Returned, body_Close (snd (Close rw1 c3)))
                    | Returns (Some err) \<Rightarrow>
                        (Returned, body_Close (snd (Close rw1 (SendSystemError
                           (NewSystemError ErrCodeUnexpected (''internal error: '' @ Error err))
                           c3)))))) \<and>
         handle echo_handler ctx now call healthy =
           (Returned,
            healthy\<lparr>events :=
              [EvArg2Reader, EvArg3Reader,
               EvHandle \<lparr>Caller = CallerName call, Service = ServiceName call,
                         Encoding = Format call, Procedure = MethodString call,
                         Headers = hs, Body = b, TTL = Time_Sub d now\<rparr>,
               EvArg2 (Format call) [], EvArg3Open,
               EvArg3Write (CallerName call @ ''|'' @ ServiceName call @ ''|'' @
                            MethodString call @ ''|'' @ Format call @ ''|'' @
                            concat (map (\<lambda>(k, v). k @ ''='' @ v @ '';'') hs) @ ''|'' @ b),
               EvArg3Close, EvBodyClose]\<rparr>) \<and>
         handled (events (snd (handle h ctx now call c))) =
           handled (events c) @
             [\<lparr>Caller = CallerName call, Service = ServiceName call,
               Encoding = Format call, Procedure = MethodString call,
               Headers = hs, Body = b, TTL = Time_Sub d now\<rparr>] \<and>
         take 3 (drop (length (events c)) (events (snd (handle h ctx now call c)))) =
           [EvArg2Reader, EvArg3Reader,
            EvHandle \<lparr>Caller = CallerName call, Service = ServiceName call,
               Encoding = Format call, Procedure = MethodString call,
               Headers = hs, Body = b, TTL = Time_Sub d now\<rparr>]"
proof -
  define treq where "treq = \<lparr>Caller = CallerName call, Service = ServiceName call,
                 Encoding = Format call, Procedure = MethodString call,
                 Headers = hs, Body = b, TTL = Time_Sub d now\<rparr>"
  define c2 where "c2 = c\<lparr>events := events c @ [EvArg2Reader, EvArg3Reader, EvHandle treq]\<rparr>"
  obtain res rw1 c3 where r: "run (h ctx treq) (newResponseWriter call) c2 = (res, rw1, c3)"
    by (cases "run (h ctx treq) (newResponseWriter call) c2") auto
  from run_events [of "h ctx treq" "newResponseWriter call" c2] r obtain es
    where es: "events c3 = events c2 @ es" "list_all is_response_frame es" by auto
  have h3: "handled (events c3) = handled (events c) @ [treq]"
    using es by (simp add: c2_def handled_append handled_frames)
  have cl: "handled (events (body_Close (snd (Close rw1 c')))) = handled (events c')" for c'
    using Close_events [of rw1 c']
    by (auto simp: body_Close_def log_def handled_append handled_frames)
  have hd: "handle h ctx now call c =
     (case res of
        Panics m \<Rightarrow> (Panicked m, body_Close (snd (Close rw1 c3)))
      | Returns None \<Rightarrow> (Returned, body_Close (snd (Close rw1 c3)))
      | Returns (Some err) \<Rightarrow>
          (Returned, body_Close (snd (Close rw1 (SendSystemError
             (NewSystemError ErrCodeUnexpected (''internal error: '' @ Error err)) c3)))))"
    by (rule handle_accepted [where d = d and hs = hs and b = b and treq = treq and ?c2.0 = c2])
       (fact assms treq_def c2_def r)+
  have P: "handle h ctx now call c =
           (let treq = \<lparr>Caller = CallerName call, Service = ServiceName call,
                        Encoding = Format call, Procedure = MethodString call,
                        Headers = hs, Body = b, TTL = Time_Sub d now\<rparr>
            in case run (h ctx treq) (newResponseWriter call)
                     (c\<lparr>events := events c @ [EvArg2Reader, EvArg3Reader, EvHandle treq]\<rparr>) of
                 (res, rw1, c3) \<Rightarrow>
                   (case res of
                      Panics m \<Rightarrow> (Panicked m, body_Close (snd (Close rw1 c3)))
                    | Returns None \<Rightarrow> (Returned, body_Close (snd (Close rw1 c3)))
                    | Returns (Some err) \<Rightarrow>
                        (Returned, body_Close (snd (Close rw1 (SendSystemError
                           (NewSystemError ErrCodeUnexpected (''internal error: '' @ Error err))
                           c3))))))"
    using r unfolding hd by (simp add: treq_def c2_def)
  have E: "handle echo_handler ctx now call healthy =
           (Returned,
            healthy\<lparr>events :=
              [EvArg2Reader, EvArg3Reader, EvHandle treq,
               EvArg2 (Format call) [], EvArg3Open,
               EvArg3Write (CallerName call @ ''|'' @ ServiceName call @ ''|'' @
                            MethodString call @ ''|'' @ Format call @ ''|'' @
                            concat (map (\<lambda>(k, v). k @ ''='' @ v @ '';'') hs) @ ''|'' @ b),
               EvArg3Close, EvBodyClose]\<rparr>)"
    using assms
    by (simp add: handle_def echo_handler_def readHeaders_def Arg3Reader_def log_def
          newResponseWriter_def Write_def writeHeaders_def Arg3Writer_def ArgWriter_Write_def
          Close_def ArgWriter_Close_def body_Close_def healthy_def treq_def)
  have "handled (events (snd (handle h ctx now call c))) = handled (events c3)"
    unfolding hd
    by (simp add: cl SendSystemError_def log_def handled_append
             split: handler_result.splits option.splits)
  with h3 have A: "handled (events (snd (handle h ctx now call c))) = handled (events c) @ [treq]"
    by simp
  have cl2: "\<exists>es'. events (body_Close (snd (Close rw1 c'))) = events c' @ es'" for c'
    using Close_events [of rw1 c'] by (auto simp: body_Close_def log_def)
  have "\<exists>es'. events (snd (handle h ctx now call c)) = events c3 @ es'"
  proof (cases res)
    case (Panics m)
    then show ?thesis using cl2 [of c3] by (simp add: hd)
  next
    case (Returns e)
    show ?thesis
    proof (cases e)
      case None
      then show ?thesis using Returns cl2 [of c3] by (simp add: hd)
    next
      case (Some err)
      then show ?thesis
        using Returns cl2 [of "SendSystemError
             (NewSystemError ErrCodeUnexpected (''internal error: '' @ Error err)) c3"]
        by (auto simp: hd SendSystemError_def log_def)
    qed
  qed
  then obtain es' where "events (snd (handle h ctx now call c)) = events c3 @ es'" by blast
  then have B: "take 3 (drop (length (events c)) (events (snd (handle h ctx now call c)))) =
           [EvArg2Reader, EvArg3Reader, EvHandle treq]"
    using es by (simp add: c2_def)
  from P E A B show ?thesis unfolding treq_def by blast
qed

theorem handle_request_fields_witness:
  "Deadline ctx_1s = Some 1000000000 \<and> Arg2 call_hello = Inr [(''k'', ''v'')] \<and>
   Arg3 call_hello = Inr ''hello'' \<and>
   handle echo_handler ctx_1s 0 call_hello healthy =
     (Returned,
      healthy\<lparr>events :=
        [EvArg2Reader, EvArg3Reader, EvHandle req_hello, EvArg2 ''raw'' [], EvArg3Open,
         EvArg3Write ''moe|curly|nyuck|raw|k=v;|hello'', EvArg3Close, EvBodyClose]\<rparr>) \<and>
   handled (events (snd (handle world_handler ctx_1s 0 call_hello healthy))) = [req_hello] \<and>
   take 3 (events (snd (handle world_handler ctx_1s 0 call_hello healthy))) =
     [EvArg2Reader, EvArg3Reader, EvHandle req_hello]"
proof -
  have a: "Deadline ctx_1s = Some 1000000000" by (simp add: ctx_1s_def)
  have b: "Arg2 call_hello = Inr [(''k'', ''v'')]" by (simp add: call_hello_def)
  have c: "Arg3 call_hello = Inr ''hello''" by (simp add: call_hello_def)
  have q: "\<lparr>Caller = CallerName call_hello, Service = ServiceName call_hello,
            Encoding = Format call_hello, Procedure = MethodString call_hello,
            Headers = [(''k'', ''v'')], Body = ''hello'', TTL = Time_Sub 1000000000 0\<rparr> = req_hello"
    by (simp add: call_hello_def req_hello_def Time_Sub_def)
  have e: "events healthy = []" by (simp add: healthy_def)
  have f: "CallerName call_hello = ''moe''" "ServiceName call_hello = ''curly''"
          "MethodString call_hello = ''nyuck''" "Format call_hello = ''raw''"
    by (simp_all add: call_hello_def)
  note T = handle_request_fields [OF a b c, of world_handler 0 healthy, unfolded q]
  have T2: "handle echo_handler ctx_1s 0 call_hello healthy =
     (Returned,
      healthy\<lparr>events :=
        [EvArg2Reader, EvArg3Reader, EvHandle req_hello, EvArg2 ''raw'' [], EvArg3Open,
         EvArg3Write ''moe|curly|nyuck|raw|k=v;|hello'', EvArg3Close, EvBodyClose]\<rparr>)"
    using conjunct1 [OF conjunct2 [OF T]] by (simp add: f)
  have T3: "handled (events (snd (handle world_handler ctx_1s 0 call_hello healthy))) =
              [req_hello]"
    using conjunct1 [OF conjunct2 [OF conjunct2 [OF T]]] by (simp add: e)
  have T4: "take 3 (events (snd (handle world_handler ctx_1s 0 call_hello healthy))) =
     [EvArg2Reader, EvArg3Reader, EvHandle req_hello]"
    using conjunct2 [OF conjunct2 [OF conjunct2 [OF T]]] by (simp add: e)
  from a b c T2 T3 T4 show ?thesis by blast
qed

subsection \<open>Errors returned by the handler\<close>

text \<open>
  C7, as amended. When the handler of an accepted call returns a non-nil error,
  \<open>handle\<close> sends exactly one system error: its code is \<open>ErrCodeUnexpected\<close> whatever
  the class of the error, and its message is the text of the error after
  \<^verbatim>\<open>internal error: \<close>.
\<close>

theorem handle_error_code:
  assumes "Deadline ctx = Some d" "Arg2 call = Inr hs" "Arg3 call = Inr b"
    and "fst (run (h ctx \<lparr>Caller = CallerName call, Service = ServiceName call,
                 Encoding = Format call, Procedure = MethodString call,
                 Headers = hs, Body = b, TTL = Time_Sub d now\<rparr>)
               (newResponseWriter call)
               (c\<lparr>events := events c @ [EvArg2Reader, EvArg3Reader,
                  EvHandle \<lparr>Caller = CallerName call, Service = ServiceName call,
                 Encoding = Format call, Procedure = MethodString call,
                 Headers = hs, Body = b, TTL = Time_Sub d now\<rparr>]\<rparr>)) = Returns (Some err)"
  shows "system_errors (events (snd (handle h ctx now call c))) =
           system_errors (events c) @
             [NewSystemError ErrCodeUnexpected (''internal error: '' @ Error err)]"
proof -
  define treq where "treq = \<lparr>Caller = CallerName call, Service = ServiceName call,
                 Encoding = Format call, Procedure = MethodString call,
                 Headers = hs, Body = b, TTL = Time_Sub d now\<rparr>"
  define c2 where "c2 = c\<lparr>events := events c @ [EvArg2Reader, EvArg3Reader, EvHandle treq]\<rparr>"
  obtain res rw1 c3 where r: "run (h ctx treq) (newResponseWriter call) c2 = (res, rw1, c3)"
    by (cases "run (h ctx treq) (newResponseWriter call) c2") auto
  have res: "res = Returns (Some err)"
    using assms(4) r by (simp add: treq_def c2_def)
  from run_events [of "h ctx treq" "newResponseWriter call" c2] r obtain es
    where es: "events c3 = events c2 @ es" "list_all is_response_frame es" by auto
  have h3: "system_errors (events c3) = system_errors (events c)"
    using es by (simp add: c2_def system_errors_append system_errors_frames)
  have cl: "system_errors (events (body_Close (snd (Close rw1 c')))) = system_errors (events c')" for c'
    using Close_events [of rw1 c']
    by (auto simp: body_Close_def log_def system_errors_append system_errors_frames)
  have hd: "handle h ctx now call c =
     (case res of
        Panics m \<Rightarrow> (Panicked m, body_Close (snd (Close rw1 c3)))
      | Returns None \<Rightarrow> (Returned, body_Close (snd (Close rw1 c3)))
      | Returns (Some err) \<Rightarrow>
          (Returned, body_Close (snd (Close rw1 (SendSystemError
             (NewSystemError ErrCodeUnexpected (''internal error: '' @ Error err)) c3)))))"
    by (rule handle_accepted [where d = d and hs = hs and b = b and treq = treq and ?c2.0 = c2])
       (fact assms(1-3) treq_def c2_def r)+
  show ?thesis
    unfolding hd
    by (simp add: res cl h3 SendSystemError_def log_def system_errors_append)
qed

theorem handle_error_code_witness:
  "system_errors (events (snd (handle timeout_handler ctx_1s 0 call_hello healthy))) =
     [NewSystemError ErrCodeUnexpected ''internal error: too slow'']"
proof -
  have a: "Deadline ctx_1s = Some 1000000000" by (simp add: ctx_1s_def)
  have b: "Arg2 call_hello = Inr [(''k'', ''v'')]" by (simp add: call_hello_def)
  have c: "Arg3 call_hello = Inr ''hello''" by (simp add: call_hello_def)
  show ?thesis
    using handle_error_code [OF a b c, of timeout_handler 0 healthy "GoError TimeoutClass ''too slow''"]
    by (simp add: timeout_handler_def healthy_def)
qed

text \<open>
  C7 as it is stated fails: a handler returns an error of the timeout class, and the
  code of the system error sent is not the code of that class.
\<close>

theorem handle_error_code_counterexample:
  "system_error_codes (events (snd (handle timeout_handler ctx_1s 0 call_hello healthy))) \<noteq>
     [spec_system_code (error_class_of (GoError TimeoutClass ''too slow''))]"
  by (simp add: handle_def timeout_handler_def ctx_1s_def call_hello_def healthy_def
        readHeaders_def Arg3Reader_def log_def newResponseWriter_def Close_def
        body_Close_def SendSystemError_def)


subsection \<open>A handler that panics\<close>

text \<open>
  C1 is not what \<open>handle\<close> does. With a handler that panics, the panic leaves
  \<open>handle\<close>: no system error is sent and no response frame is written; only the
  deferred closing of the request body, and of a response writer that has nothing to
  close, is seen.
\<close>

theorem handle_panic_propagates:
  "handle panicking_handler ctx_1s 0 call_hello healthy =
     (Panicked ''handler panicked'',
      healthy\<lparr>events := [EvArg2Reader, EvArg3Reader, EvHandle req_hello, EvBodyClose]\<rparr>)"
  by (simp add: handle_def panicking_handler_def ctx_1s_def call_hello_def healthy_def
        req_hello_def readHeaders_def Arg3Reader_def log_def newResponseWriter_def Close_def
        body_Close_def Time_Sub_def)

subsection \<open>Closing a response writer that was never written to\<close>

text \<open>
  C2 is not what \<open>Close\<close> does. On a writer that holds pending headers and has seen no
  \<open>Write\<close>, \<open>Close\<close> returns nil and sends nothing: the headers are not flushed and no
  body is opened. A handler that only adds headers and returns nil leaves the call
  without any response frame.
\<close>

theorem Close_without_Write_sends_nothing:
  "AddHeaders [(''a'', ''b'')] (newResponseWriter call_hello) =
     Inr ((newResponseWriter call_hello)\<lparr>headers := [(''a'', ''b'')]\<rparr>) \<and>
   Close ((newResponseWriter call_hello)\<lparr>headers := [(''a'', ''b'')]\<rparr>) healthy =
     (None, healthy) \<and>
   handle headers_only_handler ctx_1s 0 call_hello healthy =
     (Returned,
      healthy\<lparr>events := [EvArg2Reader, EvArg3Reader, EvHandle req_hello, EvBodyClose]\<rparr>)"
proof -
  have l: "toLower ''a'' = ''a''" by code_simp
  show ?thesis
    by (simp add: handle_def headers_only_handler_def ctx_1s_def call_hello_def healthy_def
        req_hello_def readHeaders_def Arg3Reader_def log_def newResponseWriter_def Close_def
        body_Close_def Time_Sub_def AddHeaders_def Headers_Set_def l)
qed

subsection \<open>The order of the response frames\<close>

lemma wire_phase_of_snoc: "wire_phase_of (es @ [e]) = wire_step (wire_phase_of es) e"
  by (simp add: wire_phase_of_def)

lemma wire_phase_of_log: "wire_phase_of (events (log e c)) = wire_step (wire_phase_of (events c)) e"
  by (simp add: log_def wire_phase_of_snoc)

lemma Write_first:
  assumes "\<not> wroteHeaders rw" "bodyWriter rw = None" "Write s rw c = ((n, None), rw1, c1)"
  shows "events c1 = events c @ [EvArg2 (format rw) (headers rw), EvArg3Open, EvArg3Write s]"
    and "n = length s" and "wroteHeaders rw1" and "bodyWriter rw1 \<noteq> None"
    and "failedWith rw1 = None"
  using assms
  by (auto simp: Write_def writeHeaders_def Arg3Writer_def ArgWriter_Write_def log_def
           split: option.splits sum.splits prod.splits list.splits if_splits)

lemma Write_later:
  assumes "wroteHeaders rw" "bodyWriter rw \<noteq> None" "Write s rw c = ((n, None), rw1, c1)"
  shows "events c1 = events c @ [EvArg3Write s]" and "n = length s"
  using assms
  by (auto simp: Write_def writeHeaders_def Arg3Writer_def ArgWriter_Write_def log_def
           split: option.splits sum.splits prod.splits list.splits if_splits)

lemma Write_matches:
  assumes "writer_matches_wire rw c" "Write s rw c = (r, rw1, c1)"
  shows "writer_matches_wire rw1 c1"
  using assms
  by (auto simp: writer_matches_wire_def Write_def writeHeaders_def Arg3Writer_def
        ArgWriter_Write_def wire_phase_of_log
           split: option.splits sum.splits prod.splits list.splits if_splits wire_phase.splits)


lemma AddHeaders_matches:
  assumes "writer_matches_wire rw c" "AddHeaders h rw = Inr rw1"
  shows "writer_matches_wire rw1 c"
  using assms
  by (auto simp: writer_matches_wire_def AddHeaders_def split: if_splits wire_phase.splits)

lemma run_matches:
  "writer_matches_wire rw c \<Longrightarrow> run p rw c = (res, rw1, c1) \<Longrightarrow> writer_matches_wire rw1 c1"
proof (induction p arbitrary: rw c)
  case (Return e)
  then show ?case by simp
next
  case (Panic m)
  then show ?case by simp
next
  case (DoAddHeaders h p)
  show ?case
  proof (cases "AddHeaders h rw")
    case (Inl m)
    then show ?thesis using DoAddHeaders.prems by simp
  next
    case (Inr rw2)
    then have "run p rw2 c = (res, rw1, c1)" using DoAddHeaders.prems by simp
    moreover have "writer_matches_wire rw2 c"
      using AddHeaders_matches [OF DoAddHeaders.prems(1) Inr] .
    ultimately show ?thesis using DoAddHeaders.IH by blast
  qed
next
  case (DoWrite s k)
  obtain r rw2 c2 where w: "Write s rw c = (r, rw2, c2)"
    by (cases "Write s rw c") auto
  have m: "writer_matches_wire rw2 c2"
    using Write_matches [OF DoWrite.prems(1) w] .
  have "run (k r) rw2 c2 = (res, rw1, c1)" using DoWrite.prems(2) w by simp
  with m show ?case using DoWrite.IH [of "k r" rw2 c2] by blast
qed

lemma Close_in_order:
  "writer_matches_wire rw c \<Longrightarrow> headers_precede_body (events (snd (Close rw c)))"
  by (auto simp: writer_matches_wire_def headers_precede_body_def Close_def ArgWriter_Close_def
        wire_phase_of_log split: option.splits wire_phase.splits)

lemma handle_in_order:
  assumes "events c = []"
  shows "headers_precede_body (events (snd (handle h ctx now call c)))"
proof (cases "Deadline ctx")
  case None
  then show ?thesis
    using assms
    by (simp add: handle_def SendSystemError_def headers_precede_body_def log_def
          wire_phase_of_def)
next
  case (Some d)
  show ?thesis
  proof (cases "Arg2 call")
    case (Inl e)
    then show ?thesis using Some assms
      by (simp add: handle_def readHeaders_def SendSystemError_def headers_precede_body_def
            log_def wire_phase_of_def)
  next
    case hs: (Inr hs)
    show ?thesis
    proof (cases "Arg3 call")
      case (Inl e)
      then show ?thesis using Some hs assms
        by (simp add: handle_def readHeaders_def Arg3Reader_def SendSystemError_def
              headers_precede_body_def log_def wire_phase_of_def)
    next
      case (Inr b)
      define treq where "treq = \<lparr>Caller = CallerName call, Service = ServiceName call,
                 Encoding = Format call, Procedure = MethodString call,
                 Headers = hs, Body = b, TTL = Time_Sub d now\<rparr>"
      define c2 where "c2 = c\<lparr>events := events c @ [EvArg2Reader, EvArg3Reader, EvHandle treq]\<rparr>"
      obtain res rw1 c3 where r: "run (h ctx treq) (newResponseWriter call) c2 = (res, rw1, c3)"
        by (cases "run (h ctx treq) (newResponseWriter call) c2") auto
      have hd: "handle h ctx now call c =
         (case res of
            Panics m \<Rightarrow> (Panicked m, body_Close (snd (Close rw1 c3)))
          | Returns None \<Rightarrow> (Returned, body_Close (snd (Close rw1 c3)))
          | Returns (Some err) \<Rightarrow>
              (Returned, body_Close (snd (Close rw1 (SendSystemError
                 (NewSystemError ErrCodeUnexpected (''internal error: '' @ Error err)) c3)))))"
        by (rule handle_accepted [where d = d and hs = hs and b = b and treq = treq and ?c2.0 = c2])
           (fact Some hs Inr treq_def c2_def r)+
      have "writer_matches_wire (newResponseWriter call) c2"
        using assms
        by (simp add: writer_matches_wire_def c2_def wire_phase_of_def newResponseWriter_def)
      then have m3: "writer_matches_wire rw1 c3" using run_matches r by blast
      have m4: "writer_matches_wire rw1 (SendSystemError e c3)" for e
        using m3 by (simp add: writer_matches_wire_def SendSystemError_def wire_phase_of_log)
      have fin: "headers_precede_body (events (body_Close (snd (Close rw1 c'))))"
        if "writer_matches_wire rw1 c'" for c'
        using Close_in_order [OF that]
        by (simp add: headers_precede_body_def body_Close_def wire_phase_of_log)
      show ?thesis
        unfolding hd using fin [OF m3] fin [OF m4]
        by (simp split: handler_result.splits option.splits)
    qed
  qed
qed


text \<open>
  C4. On a writer that has written nothing, a \<open>Write\<close> that succeeds puts on the wire,
  in this order, the pending headers (the arg2 frame), the opening of the body stream
  and the bytes given. A later \<open>Write\<close> that succeeds only appends its bytes to the
  body. Whatever the handler does and whichever operation of the transport fails, the
  response frames of one call never leave this order: the headers come first and once.
\<close>

theorem Write_headers_before_body:
  "(\<not> wroteHeaders rw \<and> bodyWriter rw = None \<and> Write s rw c = ((n, None), rw1, c1) \<longrightarrow>
      events c1 = events c @ [EvArg2 (format rw) (headers rw), EvArg3Open, EvArg3Write s] \<and>
      wroteHeaders rw1 \<and> bodyWriter rw1 \<noteq> None) \<and>
   (wroteHeaders rw \<and> bodyWriter rw \<noteq> None \<and> Write s rw c = ((n, None), rw1, c1) \<longrightarrow>
      events c1 = events c @ [EvArg3Write s]) \<and>
   (events c = [] \<longrightarrow> headers_precede_body (events (snd (handle h ctx now call c))))"
  using Write_first(1,3,4) [of rw s c n rw1 c1] Write_later(1) [of rw s c n rw1 c1]
    handle_in_order [of c h ctx now call]
  by blast

theorem Write_headers_before_body_witness:
  "events (snd (snd (Write ''hi'' hi_writer healthy))) =
     [EvArg2 ''raw'' [(''foo'', ''bar'')], EvArg3Open, EvArg3Write ''hi''] \<and>
   events (snd (snd (Write ''!'' (fst (snd (Write ''hi'' hi_writer healthy)))
                                (snd (snd (Write ''hi'' hi_writer healthy)))))) =
     [EvArg2 ''raw'' [(''foo'', ''bar'')], EvArg3Open, EvArg3Write ''hi'', EvArg3Write ''!''] \<and>
   headers_precede_body (events (snd (handle world_handler ctx_1s 0 call_hello healthy)))"
proof -
  define rw1 where "rw1 = hi_writer\<lparr>wroteHeaders := True, bodyWriter := Some Arg3BodyWriter\<rparr>"
  define c1 where "c1 = healthy\<lparr>events :=
     [EvArg2 ''raw'' [(''foo'', ''bar'')], EvArg3Open, EvArg3Write ''hi'']\<rparr>"
  define c2 where "c2 = healthy\<lparr>events :=
     [EvArg2 ''raw'' [(''foo'', ''bar'')], EvArg3Open, EvArg3Write ''hi'', EvArg3Write ''!'']\<rparr>"
  have w1: "Write ''hi'' hi_writer healthy = ((2, None), rw1, c1)"
    by (simp add: Write_def hi_writer_def newResponseWriter_def healthy_def writeHeaders_def
          Arg3Writer_def ArgWriter_Write_def log_def rw1_def c1_def call_hello_def)
  have w2: "Write ''!'' rw1 c1 = ((1, None), rw1, c2)"
    by (simp add: Write_def hi_writer_def newResponseWriter_def healthy_def writeHeaders_def
          Arg3Writer_def ArgWriter_Write_def log_def rw1_def c1_def c2_def call_hello_def)
  have a: "\<not> wroteHeaders hi_writer \<and> bodyWriter hi_writer = None"
    by (simp add: hi_writer_def newResponseWriter_def)
  have b: "wroteHeaders rw1 \<and> bodyWriter rw1 \<noteq> None" by (simp add: rw1_def)
  have e: "events healthy = []" by (simp add: healthy_def)
  have f: "format hi_writer = ''raw'' \<and> headers hi_writer = [(''foo'', ''bar'')]"
    by (simp add: hi_writer_def newResponseWriter_def call_hello_def)
  from Write_headers_before_body [of hi_writer "''hi''" healthy 2 rw1 c1 world_handler ctx_1s 0 call_hello]
    Write_headers_before_body [of rw1 "''!''" c1 1 rw1 c2 world_handler ctx_1s 0 call_hello]
  show ?thesis using w1 w2 a b e f by (simp add: c1_def)
qed

subsection \<open>Freezing the headers\<close>



lemma map_of_merge:
  "map_of (foldl (\<lambda>hs (k, v). Headers_Set k v hs) hs0 h) = map_of hs0 ++ lowercased_view h"
proof (induction h arbitrary: hs0)
  case Nil
  show ?case by (simp add: lowercased_view_def)
next
  case (Cons kv h)
  obtain k v where kv: "kv = (k, v)" by (cases kv)
  have "map_of (foldl (\<lambda>hs (k, v). Headers_Set k v hs) hs0 (kv # h)) =
        map_of (Headers_Set k v hs0) ++ lowercased_view h"
    using Cons.IH [of "Headers_Set k v hs0"] kv by simp
  also have "\<dots> = (map_of hs0)(toLower k \<mapsto> v) ++ lowercased_view h"
    by (simp add: Headers_Set_def update_conv')
  also have "\<dots> = map_of hs0 ++ lowercased_view (kv # h)"
    by (simp add: lowercased_view_def kv map_add_upd_left)
  finally show ?case .
qed

lemma toLower_Foo: "toLower ''Foo'' = ''foo''"
  by code_simp





subsection \<open>The sticky error\<close>





subsection \<open>Writing no bytes\<close>

text \<open>
  C10. The first \<open>Write\<close> freezes the headers even when it is given no bytes: after
  it \<open>wroteHeaders\<close> is set and \<open>AddHeaders\<close> is refused, and when the arg2 and arg3
  writers of the transport open, the pending headers are on the wire and the body
  stream has been opened, with an empty write.
\<close>

theorem Write_of_nothing_freezes_headers:
  "\<not> wroteHeaders rw \<and> bodyWriter rw = None \<and> failedWith rw = None \<and>
   Write [] rw c = (r, rw1, c1) \<longrightarrow>
     wroteHeaders rw1 \<and>
     AddHeaders h rw1 = Inl ''AddHeaders() cannot be called after calling Write().'' \<and>
     (arg2_fault c = None \<and> arg3_fault c = None \<longrightarrow>
        events c1 = events c @ [EvArg2 (format rw) (headers rw), EvArg3Open, EvArg3Write []] \<and>
        bodyWriter rw1 \<noteq> None)"
  by (auto simp: Write_def writeHeaders_def Arg3Writer_def ArgWriter_Write_def log_def
        AddHeaders_def
           split: option.splits sum.splits prod.splits list.splits if_splits)

theorem Write_of_nothing_freezes_headers_witness:
  "Write [] hi_writer healthy =
     ((0, None), hi_writer\<lparr>wroteHeaders := True, bodyWriter := Some Arg3BodyWriter\<rparr>,
      healthy\<lparr>events := [EvArg2 ''raw'' [(''foo'', ''bar'')], EvArg3Open, EvArg3Write []]\<rparr>) \<and>
   AddHeaders [(''x'', ''y'')] (fst (snd (Write [] hi_writer healthy))) =
     Inl ''AddHeaders() cannot be called after calling Write().''"
proof -
  define rw1 where "rw1 = hi_writer\<lparr>wroteHeaders := True, bodyWriter := Some Arg3BodyWriter\<rparr>"
  define c1 where "c1 = healthy\<lparr>events :=
     [EvArg2 ''raw'' [(''foo'', ''bar'')], EvArg3Open, EvArg3Write []]\<rparr>"
  have w: "Write [] hi_writer healthy = ((0, None), rw1, c1)"
    by (simp add: Write_def hi_writer_def newResponseWriter_def healthy_def writeHeaders_def
          Arg3Writer_def ArgWriter_Write_def log_def call_hello_def rw1_def c1_def)
  have a: "\<not> wroteHeaders hi_writer \<and> bodyWriter hi_writer = None \<and> failedWith hi_writer = None \<and>
           arg2_fault healthy = None \<and> arg3_fault healthy = None"
    by (simp add: hi_writer_def newResponseWriter_def healthy_def)
  from Write_of_nothing_freezes_headers [of hi_writer healthy "(0, None)" rw1 c1 "[(''x'', ''y'')]"]
  show ?thesis using w a by (simp add: rw1_def c1_def)
qed

subsection \<open>User headers over HTTP\<close>

lemma toLower_idem: "toLower (toLower s) = toLower s"
  by (simp add: toLower_def toLower_char_def Let_def)

lemma map_of_rev_distinct: "distinct (map fst xs) \<Longrightarrow> map_of (rev xs) = map_of xs"
proof (induction xs)
  case Nil
  show ?case by simp
next
  case (Cons kv xs)
  obtain k v where kv: "kv = (k, v)" by (cases kv)
  have none: "map_of xs k = None"
    using Cons.prems kv by (simp add: map_of_eq_None_iff)
  have "map_of (rev (kv # xs)) = map_of [(k, v)] ++ map_of xs"
    using Cons kv by simp
  also have "\<dots> = (map_of xs)(k \<mapsto> v)"
    using none by (auto simp: map_add_def fun_eq_iff split: option.splits)
  finally show ?case using kv by simp
qed

lemma FromHTTPHeaders_snoc:
  "FromHTTPHeaders (hdrs @ [(n, v)]) to =
     (if hasPrefix n ApplicationHeaderPrefix
      then Headers_Set (drop (length ApplicationHeaderPrefix) n) v (FromHTTPHeaders hdrs to)
      else FromHTTPHeaders hdrs to)"
  by (simp add: FromHTTPHeaders_def)

lemma hasPrefix_append: "hasPrefix (p @ k) p"
  by (simp add: hasPrefix_def)

lemma FromHTTPHeaders_ToHTTPHeaders:
  "FromHTTPHeaders (ToHTTPHeaders hs) to = foldl (\<lambda>acc (k, v). Headers_Set k v acc) to hs"
proof (induction hs arbitrary: to)
  case Nil
  show ?case by (simp add: FromHTTPHeaders_def ToHTTPHeaders_def)
next
  case (Cons kv hs)
  obtain k v where kv: "kv = (k, v)" by (cases kv)
  have "FromHTTPHeaders (ToHTTPHeaders (kv # hs)) to =
        FromHTTPHeaders (ToHTTPHeaders hs) (Headers_Set k v to)"
    by (simp add: FromHTTPHeaders_def ToHTTPHeaders_def kv hasPrefix_append)
  then show ?case using Cons.IH [of "Headers_Set k v to"] kv by simp
qed

lemma merged_keys:
  "distinct (map fst to) \<and> (\<forall>k \<in> fst ` set to. toLower k = k) \<Longrightarrow>
   distinct (map fst (foldl (\<lambda>acc (k, v). Headers_Set k v acc) to hs)) \<and>
   (\<forall>k \<in> fst ` set (foldl (\<lambda>acc (k, v). Headers_Set k v acc) to hs). toLower k = k)"
proof (induction hs arbitrary: to)
  case Nil
  then show ?case by simp
next
  case (Cons kv hs)
  obtain k v where kv: "kv = (k, v)" by (cases kv)
  have "distinct (map fst (Headers_Set k v to)) \<and>
        (\<forall>k \<in> fst ` set (Headers_Set k v to). toLower k = k)"
    using Cons.prems
    by (auto simp: Headers_Set_def distinct_update toLower_idem update_keys
             simp flip: set_map)
  from Cons.IH [OF this] show ?case using kv by simp
qed

lemma lowercased_view_normal:
  assumes "distinct (map fst hs)" "\<forall>k \<in> fst ` set hs. toLower k = k"
  shows "lowercased_view hs = map_of hs"
proof -
  have "map (\<lambda>(k, v). (toLower k, v)) hs = hs"
    using assms(2) by (induction hs) auto
  then show ?thesis using assms(1) by (simp add: lowercased_view_def map_of_rev_distinct)
qed

text \<open>
  C9. Decoding the headers of an HTTP request, a header whose name starts with
  \<^verbatim>\<open>Rpc-Header-\<close> becomes a user header: the prefix is stripped and the rest of the
  name, lowercased, is the key; a header without the prefix is not a user header.
  Encoding writes each user header under its key with the prefix \<^verbatim>\<open>Rpc-Header-\<close>.
  Decoding what the encoding wrote gives back the headers as set key by key, and the
  (lowercased key \<open>\<rightarrow>\<close> value) mapping is the one of the headers encoded.
\<close>

theorem http_headers_round_trip:
  "FromHTTPHeaders (hdrs @ [(n, v)]) to =
     (if hasPrefix n ''Rpc-Header-''
      then Headers_Set (drop 11 n) v (FromHTTPHeaders hdrs to)
      else FromHTTPHeaders hdrs to) \<and>
   map_of (Headers_Set k v to) (toLower k) = Some v \<and>
   ToHTTPHeaders hs = map (\<lambda>(k, v). (''Rpc-Header-'' @ k, v)) hs \<and>
   FromHTTPHeaders (ToHTTPHeaders hs) [] = foldl (\<lambda>acc (k, v). Headers_Set k v acc) [] hs \<and>
   map_of (FromHTTPHeaders (ToHTTPHeaders hs) []) = lowercased_view hs \<and>
   lowercased_view (FromHTTPHeaders (ToHTTPHeaders hs) []) = lowercased_view hs"
proof -
  let ?N = "foldl (\<lambda>acc (k, v). Headers_Set k v acc) [] hs"
  have a: "FromHTTPHeaders (hdrs @ [(n, v)]) to =
     (if hasPrefix n ''Rpc-Header-''
      then Headers_Set (drop 11 n) v (FromHTTPHeaders hdrs to)
      else FromHTTPHeaders hdrs to)"
  proof -
    have "length ApplicationHeaderPrefix = 11"
      by (simp add: ApplicationHeaderPrefix_def)
    moreover have "hasPrefix n ApplicationHeaderPrefix = hasPrefix n ''Rpc-Header-''"
      by (simp add: ApplicationHeaderPrefix_def)
    ultimately show ?thesis by (simp only: FromHTTPHeaders_snoc)
  qed
  have b: "map_of (Headers_Set k v to) (toLower k) = Some v"
    by (simp add: Headers_Set_def update_conv')
  have c: "ToHTTPHeaders hs = map (\<lambda>(k, v). (''Rpc-Header-'' @ k, v)) hs"
    by (simp add: ToHTTPHeaders_def ApplicationHeaderPrefix_def)
  have d: "FromHTTPHeaders (ToHTTPHeaders hs) [] = ?N"
    by (rule FromHTTPHeaders_ToHTTPHeaders)
  have e: "map_of ?N = lowercased_view hs"
    using map_of_merge [of "[]" hs] by simp
  have "distinct (map fst ?N) \<and> (\<forall>k \<in> fst ` set ?N. toLower k = k)"
    by (rule merged_keys) simp
  then have f: "lowercased_view ?N = map_of ?N"
    using lowercased_view_normal by blast
  show ?thesis using a b c d e f by simp
qed

theorem http_headers_round_trip_witness:
  "FromHTTPHeaders (ToHTTPHeaders [(''Foo'', ''bar'')]) [] = [(''foo'', ''bar'')] \<and>
   ToHTTPHeaders [(''foo'', ''bar'')] = [(''Rpc-Header-foo'', ''bar'')]"
proof -
  have "FromHTTPHeaders (ToHTTPHeaders [(''Foo'', ''bar'')]) [] =
          foldl (\<lambda>acc (k, v). Headers_Set k v acc) [] [(''Foo'', ''bar'')]"
    using http_headers_round_trip [of "[]" "''Rpc-Header-Foo''" "''bar''" "[]" "''Foo''"
            "[(''Foo'', ''bar'')]"]
    by blast
  moreover have "ToHTTPHeaders [(''foo'', ''bar'')] =
          map (\<lambda>(k, v). (''Rpc-Header-'' @ k, v)) [(''foo'', ''bar'')]"
    using http_headers_round_trip [of "[]" "''Rpc-Header-Foo''" "''bar''" "[]" "''Foo''"
            "[(''foo'', ''bar'')]"]
    by blast
  ultimately show ?thesis by (simp add: Headers_Set_def toLower_Foo)
qed

end
